theory Spec2Isabelle
  imports Complex_Main "HOL-Library.Word"
begin

section \<open>Values shared by the worker and the client\<close>

text \<open>
  Both processes exchange one JSON object per line. A decoded line is a value of
  \<open>json\<close>; Python's \<open>None\<close> is \<open>JNull\<close>. Python floats are modelled as
  real numbers, Python ints as \<open>int\<close>.
\<close>

datatype json =
    JNull
  | JBool bool
  | JInt int
  | JFloat real
  | JStr string
  | JArr "json list"
  | JObj "(string \<times> json) list"

text \<open>
  The exceptions that derive from \<open>Exception\<close>, each with the text that \<open>str(e)\<close>
  returns. \<open>json.JSONDecodeError\<close> is kept apart from the other ValueErrors: the client
  catches it by name.
\<close>

datatype exn =
    RuntimeError string
  | ValueError string
  | TypeError string
  | AttributeError string
  | PortAudioError string
  | JSONDecodeError string
  | RecursionError string
  | UnicodeEncodeError string
  | OSError string

fun exn_str :: "exn \<Rightarrow> string" where
  "exn_str (RuntimeError m) = m"
| "exn_str (ValueError m) = m"
| "exn_str (TypeError m) = m"
| "exn_str (AttributeError m) = m"
| "exn_str (PortAudioError m) = m"
| "exn_str (JSONDecodeError m) = m"
| "exn_str (RecursionError m) = m"
| "exn_str (UnicodeEncodeError m) = m"
| "exn_str (OSError m) = m"

text \<open>\<open>d.get(k)\<close> on a decoded object: \<open>None\<close> when the key is absent.\<close>

definition dget :: "(string \<times> json) list \<Rightarrow> string \<Rightarrow> json" where
  "dget d k = (case map_of d k of None \<Rightarrow> JNull | Some v \<Rightarrow> v)"

text \<open>Truth value of a decoded JSON value, as \<open>if v:\<close> and \<open>v or d\<close> test it.\<close>

fun truthy :: "json \<Rightarrow> bool" where
  "truthy JNull = False"
| "truthy (JBool b) = b"
| "truthy (JInt n) = (n \<noteq> 0)"
| "truthy (JFloat x) = (x \<noteq> 0)"
| "truthy (JStr s) = (s \<noteq> [])"
| "truthy (JArr xs) = (xs \<noteq> [])"
| "truthy (JObj kvs) = (kvs \<noteq> [])"

definition py_or :: "json \<Rightarrow> json \<Rightarrow> json" where
  "py_or v d = (if truthy v then v else d)"

section \<open>Waveform pipeline (audio\_worker.py)\<close>

definition WAVEFORM_BARS :: nat where
  "WAVEFORM_BARS = 24"

definition WAVEFORM_INTERVAL_S :: real where
  "WAVEFORM_INTERVAL_S = 33 / 1000"

definition PEAK_WINDOW_SIZE :: nat where
  "PEAK_WINDOW_SIZE = 90"

text \<open>
  The driver hands the callback a block of shape (frames, channels). An input stream
  has at least one channel, so a frame is the sample of channel 0 together with the
  samples of the remaining channels. A chunk is one such block.
\<close>

type_synonym frame = "real \<times> real list"
type_synonym chunk = "frame list"

text \<open>\<open>audio[start:end]\<close> for \<open>0 \<le> start\<close> and \<open>0 \<le> end\<close>.\<close>

definition slice :: "'a list \<Rightarrow> nat \<Rightarrow> nat \<Rightarrow> 'a list" where
  "slice xs start end = take (end - start) (drop start xs)"

text \<open>\<open>np.mean\<close>; the pipeline applies it to slices that hold at least one sample.\<close>

definition np_mean :: "real list \<Rightarrow> real" where
  "np_mean xs = sum_list xs / real (length xs)"

text \<open>\<open>float(np.sqrt(np.mean(chunk ** 2)))\<close>\<close>

definition rms :: "real list \<Rightarrow> real" where
  "rms chunk = sqrt (np_mean (map (\<lambda>x. x ^ 2) chunk))"

text \<open>The body of the loop \<open>for i in range(WAVEFORM_BARS)\<close>: the value appended for bar \<open>i\<close>.\<close>

definition bar_value :: "real list \<Rightarrow> nat \<Rightarrow> nat \<Rightarrow> real" where
  "bar_value audio samples_per_bar i =
     (let start = i * samples_per_bar;
          end0 = start + samples_per_bar;
          end = (if end0 > length audio then length audio else end0)
      in if start < length audio then rms (slice audio start end) else 0)"

definition raw_values_of :: "real list \<Rightarrow> real list" where
  "raw_values_of audio =
     (let samples_per_bar0 = length audio div WAVEFORM_BARS;
          samples_per_bar = (if samples_per_bar0 < 1 then 1 else samples_per_bar0)
      in fold (\<lambda>i raw_values. raw_values @ [bar_value audio samples_per_bar i])
           [0..<WAVEFORM_BARS] [])"

text \<open>\<open>max(raw_values) if raw_values else 0\<close>\<close>

definition max_or_zero :: "real list \<Rightarrow> real" where
  "max_or_zero raw_values = (case raw_values of [] \<Rightarrow> 0 | v # vs \<Rightarrow> fold max vs v)"

text \<open>
  \<open>np.percentile(a, q)\<close> with numpy's default linear interpolation between the two
  nearest ranks of the sorted data. The pipeline only calls it on a history it has just
  appended to; the empty case does not arise there.
\<close>

definition np_percentile :: "real list \<Rightarrow> real \<Rightarrow> real" where
  "np_percentile a q =
     (if a = [] then 0
      else let s = sort a;
               h = q / 100 * real (length s - 1);
               lo = nat \<lfloor>h\<rfloor>;
               hi = min (lo + 1) (length s - 1)
           in s ! lo + (h - real lo) * (s ! hi - s ! lo))"

section \<open>What the worker takes from outside the repository\<close>

text \<open>
  The Python runtime and the audio driver are not part of the repository. Their
  behaviour is a parameter of the model: every theorem holds for every choice of it.
\<close>

record device =
  dev_name :: string
  max_input_channels :: int

datatype stream = InputStream (stream_device: "nat option") (stream_rate: int) (stream_channels: int)

record platform =
  json_loads :: "string \<Rightarrow> exn + json"
    \<comment> \<open>\<open>json.loads\<close>; \<open>Inl e\<close> when it raises \<open>e\<close>\<close>
  str_strip :: "string \<Rightarrow> string"
    \<comment> \<open>\<open>line.strip()\<close>\<close>
  repr_of :: "json \<Rightarrow> string"
    \<comment> \<open>\<open>repr\<close> of a decoded value\<close>
  int_of_str :: "string \<Rightarrow> int option"
    \<comment> \<open>\<open>int(s)\<close> on a string; \<open>None\<close> when it raises ValueError\<close>
  float_of_str :: "string \<Rightarrow> real option"
    \<comment> \<open>\<open>float(s)\<close> on a string; \<open>None\<close> when it raises ValueError\<close>
  format_exc :: "exn \<Rightarrow> string"
    \<comment> \<open>\<open>traceback.format_exc()\<close> inside the handler of that exception\<close>
  write_error :: "json \<Rightarrow> exn option"
    \<comment> \<open>\<open>json.dumps(message, ensure_ascii=False)\<close>, \<open>sys.stdout.write\<close> and \<open>flush\<close>:
        \<open>Some e\<close> when one of them raises, as on text that cannot be encoded\<close>
  query_devices :: "device list"
    \<comment> \<open>\<open>sd.query_devices()\<close>\<close>
  open_stream :: "nat option \<Rightarrow> int \<Rightarrow> int \<Rightarrow> exn option"
    \<comment> \<open>\<open>sd.InputStream(...)\<close> followed by \<open>stream.start()\<close>; \<open>Some e\<close> when either raises\<close>
  abort_close :: "stream \<Rightarrow> exn option"
    \<comment> \<open>\<open>stream.abort(...)\<close> followed by \<open>stream.close(...)\<close>; \<open>Some e\<close> when either raises\<close>
  astype_int16 :: "real \<Rightarrow> 16 word"
    \<comment> \<open>\<open>(x * 32767).astype(np.int16)\<close> on one float32 sample \<open>x\<close>\<close>
  wav_write :: "string \<Rightarrow> int \<Rightarrow> 16 word list list \<Rightarrow> exn option"
    \<comment> \<open>\<open>wavfile.write(path, rate, data)\<close>; \<open>Some e\<close> when it raises\<close>

text \<open>\<open>str(v)\<close> and \<open>{v}\<close> in an f-string: a string is itself.\<close>

definition py_str :: "platform \<Rightarrow> json \<Rightarrow> string" where
  "py_str p v = (case v of JStr s \<Rightarrow> s | _ \<Rightarrow> repr_of p v)"

text \<open>\<open>int(v)\<close>: truncation toward zero on a float, parsing on a string.\<close>

definition py_int :: "platform \<Rightarrow> json \<Rightarrow> exn + int" where
  "py_int p v =
     (case v of
        JBool b \<Rightarrow> Inr (if b then 1 else 0)
      | JInt n \<Rightarrow> Inr n
      | JFloat x \<Rightarrow> Inr (if x < 0 then \<lceil>x\<rceil> else \<lfloor>x\<rfloor>)
      | JStr s \<Rightarrow> (case int_of_str p s of
                    None \<Rightarrow> Inl (ValueError (''invalid literal for int() with base 10: '' @ repr_of p v))
                  | Some n \<Rightarrow> Inr n)
      | _ \<Rightarrow> Inl (TypeError ''int() argument must be a string, a bytes-like object or a real number''))"

section \<open>Recorder (audio\_worker.py)\<close>

record recorder =
  recording :: bool
  stream :: "stream option"
  chunks :: "chunk list"
  sample_rate :: "int option"
  channels :: "int option"
  last_waveform_time :: real
  waveform_buffer :: "chunk list"
  peak_level :: real
  peak_history :: "real list"

text \<open>\<open>Recorder.__init__\<close>\<close>

definition Recorder_init :: recorder where
  "Recorder_init =
     \<lparr> recording = False, stream = None, chunks = [], sample_rate = None, channels = None,
       last_waveform_time = 0, waveform_buffer = [], peak_level = 1 / 100, peak_history = [] \<rparr>"

text \<open>\<open>Recorder._resolve_device\<close>: the loop over \<open>enumerate(sd.query_devices())\<close>.\<close>

fun resolve_from :: "nat \<Rightarrow> device list \<Rightarrow> json \<Rightarrow> nat option" where
  "resolve_from i [] name = None"
| "resolve_from i (dev # devs) name =
     (if max_input_channels dev > 0 \<and> JStr (dev_name dev) = name then Some i
      else resolve_from (Suc i) devs name)"

definition resolve_device :: "platform \<Rightarrow> json \<Rightarrow> nat option" where
  "resolve_device p name = resolve_from 0 (query_devices p) name"

text \<open>
  \<open>Recorder.start\<close>. \<open>now\<close> is the reading of \<open>time.time()\<close>. The result is the
  exception raised, if any, and the recorder as the call leaves it.
\<close>

definition start :: "platform \<Rightarrow> real \<Rightarrow> recorder \<Rightarrow> json \<Rightarrow> int \<Rightarrow> int \<Rightarrow> exn option \<times> recorder" where
  "start p now r device_name rate chans =
     (if recording r then (Some (RuntimeError ''Already recording''), r)
      else
        let device_index = (if truthy device_name then resolve_device p device_name else None)
        in if truthy device_name \<and> device_index = None
           then (Some (RuntimeError (''Audio device '' @ [CHR 39] @ py_str p device_name @ [CHR 39] @ '' not found'')), r)
           else
             let r1 = r\<lparr> chunks := [], sample_rate := Some rate, channels := Some chans,
                         recording := True, last_waveform_time := now, waveform_buffer := [],
                         peak_level := 1 / 100, peak_history := [] \<rparr>
             in (case open_stream p device_index rate chans of
                   Some e \<Rightarrow> (Some e, r1)
                 | None \<Rightarrow> (None, r1\<lparr> stream := Some (InputStream device_index rate chans) \<rparr>)))"

text \<open>The event written by \<open>_send_waveform\<close>.\<close>

definition waveform_msg :: "real list \<Rightarrow> real \<Rightarrow> json" where
  "waveform_msg vals raw_peak =
     JObj [(''type'', JStr ''waveform''), (''values'', JArr (map JFloat vals)), (''raw_peak'', JFloat raw_peak)]"

text \<open>
  \<open>Recorder._send_waveform\<close>: the recorder afterwards and the events it hands to
  \<open>_write_json\<close>.
\<close>

definition send_waveform :: "recorder \<Rightarrow> recorder \<times> json list" where
  "send_waveform r =
     (if waveform_buffer r = [] then (r, [])
      else
        let audio0 = concat (waveform_buffer r);
            audio = map (\<lambda>fr. \<bar>fst fr\<bar>) audio0;
            raw_values = raw_values_of audio;
            current_max = max_or_zero raw_values;
            history0 = peak_history r @ [current_max];
            history = (if length history0 > PEAK_WINDOW_SIZE then tl history0 else history0);
            target_peak = max (np_percentile history 85) (5 / 1000);
            level = peak_level r * (8 / 10) + target_peak * (2 / 10);
            vals = map (\<lambda>v. min 1 (v / level * (85 / 100))) raw_values
        in (r\<lparr> waveform_buffer := [], peak_history := history, peak_level := level \<rparr>,
            [waveform_msg vals current_max]))"

text \<open>
  The stream callback of \<open>start\<close>. \<open>status\<close> is the text of the driver's status flags
  when any is set, \<open>now\<close> the reading of \<open>time.time()\<close>. Result: the recorder
  afterwards, the events handed to \<open>_write_json\<close>, the lines logged.
\<close>

definition callback :: "recorder \<Rightarrow> chunk \<Rightarrow> string option \<Rightarrow> real \<Rightarrow> recorder \<times> json list \<times> string list" where
  "callback r indata status now =
     (let logged = (case status of None \<Rightarrow> [] | Some st \<Rightarrow> [''[stt:audio-worker] Status: '' @ st])
      in if recording r then
           let r1 = r\<lparr> chunks := chunks r @ [indata], waveform_buffer := waveform_buffer r @ [indata] \<rparr>
           in if now - last_waveform_time r1 \<ge> WAVEFORM_INTERVAL_S
              then (let (r2, out) = send_waveform (r1\<lparr> last_waveform_time := now \<rparr>) in (r2, out, logged))
              else (r1, [], logged)
         else (r, [], logged))"

text \<open>
  \<open>np.max\<close> raises ValueError on an array without elements.
\<close>

definition np_max :: "real list \<Rightarrow> exn + real" where
  "np_max xs =
     (case xs of
        [] \<Rightarrow> Inl (ValueError ''zero-size array to reduction operation maximum which has no identity'')
      | y # ys \<Rightarrow> Inr (fold max ys y))"

text \<open>All samples of a block, row by row.\<close>

definition samples_of :: "chunk \<Rightarrow> real list" where
  "samples_of audio = concat (map (\<lambda>fr. fst fr # snd fr) audio)"

record wav =
  wav_rate :: int
  wav_data :: "16 word list list"

text \<open>
  The file system is a map from paths to the containers written: when
  \<open>wavfile.write\<close> does not raise, its arguments are stored under the path.
\<close>

type_synonym files = "string \<rightharpoonup> wav"

text \<open>The \<open>try\<close> around \<open>stream.abort\<close> and \<open>stream.close\<close>: what gets logged.\<close>

definition release_stream :: "platform \<Rightarrow> stream option \<Rightarrow> string list" where
  "release_stream p st =
     (case st of
        None \<Rightarrow> []
      | Some s \<Rightarrow> (case abort_close p s of None \<Rightarrow> [] | Some e \<Rightarrow> [format_exc p e]))"

text \<open>
  \<open>Recorder.stop\<close>: the pair returned or the exception raised, the recorder and the
  file system afterwards, the lines logged.
\<close>

definition stop :: "platform \<Rightarrow> recorder \<Rightarrow> files \<Rightarrow> string \<Rightarrow> (exn + nat \<times> real) \<times> recorder \<times> files \<times> string list" where
  "stop p r fs wav_path =
     (if \<not> recording r then (Inr (0, 0), r, fs, [])
      else
        let r1 = r\<lparr> recording := False, stream := None, chunks := [] \<rparr>;
            logged = release_stream p (stream r)
        in if chunks r = [] then (Inr (0, 0), r1, fs, logged)
           else
             let audio = concat (chunks r);
                 frames = length audio
             in (case np_max (map abs (samples_of audio)) of
                   Inl e \<Rightarrow> (Inl e, r1, fs, logged)
                 | Inr peak \<Rightarrow>
                     let audio_int16 = map (\<lambda>fr. map (astype_int16 p) (fst fr # snd fr)) audio;
                         rate = (case sample_rate r of None \<Rightarrow> 16000 | Some n \<Rightarrow> if n = 0 then 16000 else n)
                     in (case wav_write p wav_path rate audio_int16 of
                           Some e \<Rightarrow> (Inl e, r1, fs, logged)
                         | None \<Rightarrow>
                             (Inr (frames, peak), r1,
                              fs(wav_path \<mapsto> \<lparr> wav_rate = rate, wav_data = audio_int16 \<rparr>), logged))))"

text \<open>\<open>Recorder.cancel\<close> and \<open>Recorder.shutdown\<close>\<close>

definition cancel :: "platform \<Rightarrow> recorder \<Rightarrow> recorder \<times> string list" where
  "cancel p r = (r\<lparr> recording := False, chunks := [], stream := None \<rparr>, release_stream p (stream r))"

definition shutdown :: "platform \<Rightarrow> recorder \<Rightarrow> recorder \<times> string list" where
  "shutdown p r = cancel p r"

section \<open>Worker protocol loop (audio\_worker.py, main)\<close>

record worker =
  rec :: recorder
  stdout :: "json list"    \<comment> \<open>objects written by \<open>_write_json\<close>, oldest first\<close>
  stderr :: "string list"  \<comment> \<open>lines written by \<open>_log\<close>, oldest first\<close>
  disk :: files

datatype loop_step =
    Continue          \<comment> \<open>the loop goes on to the next line\<close>
  | Return int        \<comment> \<open>\<open>main\<close> returns\<close>
  | Crash exn         \<comment> \<open>an exception leaves the loop uncaught\<close>

text \<open>\<open>_write_json\<close>: the object is appended to the output unless the write raises.\<close>

definition write_json :: "platform \<Rightarrow> json \<Rightarrow> worker \<Rightarrow> exn + worker" where
  "write_json p m w =
     (case write_error p m of
        Some e \<Rightarrow> Inl e
      | None \<Rightarrow> Inr (w\<lparr> stdout := stdout w @ [m] \<rparr>))"

definition logs :: "string list \<Rightarrow> worker \<Rightarrow> worker" where
  "logs ls w = w\<lparr> stderr := stderr w @ ls \<rparr>"

text \<open>
  A reply written inside the second \<open>try\<close> of \<open>main\<close>, after which the iteration ends
  with \<open>step\<close>: \<open>Inl e\<close> when the write raises \<open>e\<close>.
\<close>

definition reply :: "platform \<Rightarrow> json \<Rightarrow> loop_step \<Rightarrow> worker \<Rightarrow> (exn + loop_step) \<times> worker" where
  "reply p m step w =
     (case write_json p m w of
        Inl e \<Rightarrow> (Inl e, w)
      | Inr w' \<Rightarrow> (Inr step, w'))"

text \<open>
  \<open>recorder.start(...)\<close> with the converted arguments, then the \<open>started\<close> line:
  \<open>Inl e\<close> when \<open>start\<close> or the write raises \<open>e\<close>.
\<close>

definition start_and_reply :: "platform \<Rightarrow> real \<Rightarrow> worker \<Rightarrow> (string \<times> json) list \<Rightarrow> int \<Rightarrow> int \<Rightarrow> (exn + loop_step) \<times> worker" where
  "start_and_reply p now w d rate chans =
     (case start p now (rec w) (dget d ''device_name'') rate chans of
        (Some e, r') \<Rightarrow> (Inl e, w\<lparr> rec := r' \<rparr>)
      | (None, r') \<Rightarrow>
          reply p (JObj [(''type'', JStr ''started''), (''id'', dget d ''id'')]) Continue (w\<lparr> rec := r' \<rparr>))"

text \<open>
  The body of the second \<open>try\<close> of \<open>main\<close> for a decoded object \<open>d\<close>: \<open>Inl e\<close> when it
  raises \<open>e\<close>, and the worker as it is at that point.
\<close>

definition dispatch :: "platform \<Rightarrow> real \<Rightarrow> worker \<Rightarrow> (string \<times> json) list \<Rightarrow> (exn + loop_step) \<times> worker" where
  "dispatch p now w d =
     (let msg_type = dget d ''type''; req_id = dget d ''id'' in
      if msg_type = JStr ''shutdown'' then
        (let (r', lg) = shutdown p (rec w)
         in reply p (JObj [(''type'', JStr ''shutdown_ack'')]) (Return 0) (logs lg (w\<lparr> rec := r' \<rparr>)))
      else if msg_type = JStr ''start'' then
        (case py_int p (py_or (dget d ''sample_rate'') (JInt 16000)) of
           Inl e \<Rightarrow> (Inl e, w)
         | Inr rate \<Rightarrow>
             (case py_int p (py_or (dget d ''channels'') (JInt 1)) of
                Inl e \<Rightarrow> (Inl e, w)
              | Inr chans \<Rightarrow> start_and_reply p now w d rate chans))
      else if msg_type = JStr ''stop'' then
        (let wav_path = dget d ''wav_path'' in
         if \<not> truthy wav_path then (Inl (ValueError ''Missing wav_path''), w)
         else
           (case stop p (rec w) (disk w) (py_str p wav_path) of
              (Inl e, r', fs', lg) \<Rightarrow> (Inl e, logs lg (w\<lparr> rec := r', disk := fs' \<rparr>))
            | (Inr (frames, peak), r', fs', lg) \<Rightarrow>
                reply p (JObj [(''type'', JStr ''stopped''), (''id'', req_id), (''wav_path'', wav_path),
                                (''frames'', JInt (int frames)), (''peak'', JFloat peak)])
                  Continue (logs lg (w\<lparr> rec := r', disk := fs' \<rparr>))))
      else if msg_type = JStr ''cancel'' then
        (let (r', lg) = cancel p (rec w)
         in reply p (JObj [(''type'', JStr ''canceled''), (''id'', req_id)]) Continue (logs lg (w\<lparr> rec := r' \<rparr>)))
      else
        (Inr Continue, logs [''[stt:audio-worker] Unknown message type: '' @ repr_of p msg_type] w))"

text \<open>The \<open>error\<close> line written by the \<open>except\<close> clause of the second \<open>try\<close>.\<close>

definition error_response :: "(string \<times> json) list \<Rightarrow> exn \<Rightarrow> json" where
  "error_response d e =
     JObj [(''type'', JStr ''error''), (''id'', dget d ''id''), (''error'', JStr (exn_str e))]"

text \<open>
  One iteration of \<open>for line in sys.stdin\<close>. The first \<open>try\<close> catches every exception
  of the decoder. \<open>message.get\<close> is evaluated between the two \<open>try\<close> blocks, so a
  decoded value that is not an object raises there. An exception raised by the write
  inside the \<open>except\<close> clause of the second \<open>try\<close> is caught by nothing.
\<close>

definition handle_line :: "platform \<Rightarrow> real \<Rightarrow> worker \<Rightarrow> string \<Rightarrow> loop_step \<times> worker" where
  "handle_line p now w line0 =
     (let line = str_strip p line0 in
      if line = [] then (Continue, w)
      else
        (case json_loads p line of
           Inl e \<Rightarrow> (Continue, logs [''[stt:audio-worker] Non-JSON input ignored: '' @ repr_of p (JStr line)] w)
         | Inr (JObj d) \<Rightarrow>
             (case dispatch p now w d of
                (Inr step, w') \<Rightarrow> (step, w')
              | (Inl e, w') \<Rightarrow>
                  (case write_json p (error_response d e) (logs [format_exc p e] w') of
                     Inl e' \<Rightarrow> (Crash e', logs [format_exc p e] w')
                   | Inr w'' \<Rightarrow> (Continue, w'')))
         | Inr _ \<Rightarrow> (Crash (AttributeError ''object has no attribute get''), w)))"

text \<open>
  The loop of \<open>main\<close> over the lines of the input stream, each with the clock reading
  at the time it is handled. The end of the input returns 0.
\<close>

fun main_loop :: "platform \<Rightarrow> worker \<Rightarrow> (real \<times> string) list \<Rightarrow> loop_step \<times> worker" where
  "main_loop p w [] = (Return 0, w)"
| "main_loop p w ((now, line) # rest) =
     (case handle_line p now w line of
        (Continue, w') \<Rightarrow> main_loop p w' rest
      | (step, w') \<Rightarrow> (step, w'))"

text \<open>\<open>main\<close>: a fresh recorder, the \<open>ready\<close> line, then the loop.\<close>

definition main :: "platform \<Rightarrow> files \<Rightarrow> (real \<times> string) list \<Rightarrow> loop_step \<times> worker" where
  "main p fs input =
     (let w0 = \<lparr> rec = Recorder_init, stdout = [], stderr = [], disk = fs \<rparr>
      in case write_json p (JObj [(''type'', JStr ''ready'')]) w0 of
           Inl e \<Rightarrow> (Crash e, w0)
         | Inr w1 \<Rightarrow> main_loop p w1 input)"

section \<open>IPC client (audio\_worker\_client.py)\<close>

text \<open>A message on the inbound queue is a decoded object.\<close>

type_synonym msg = "(string \<times> json) list"

text \<open>
  \<open>v in {...}\<close> for a set of strings: a list or an object cannot be hashed, and the
  test raises TypeError.
\<close>

definition in_names :: "json \<Rightarrow> string list \<Rightarrow> exn + bool" where
  "in_names v names =
     (case v of
        JStr s \<Rightarrow> Inr (s \<in> set names)
      | JArr xs \<Rightarrow> Inl (TypeError ''unhashable type: list'')
      | JObj kvs \<Rightarrow> Inl (TypeError ''unhashable type: dict'')
      | _ \<Rightarrow> Inr False)"

text \<open>\<open>v == n\<close> for an int \<open>n\<close>: Python compares numbers and booleans by value.\<close>

definition py_eq_int :: "json \<Rightarrow> int \<Rightarrow> bool" where
  "py_eq_int v n =
     (case v of
        JInt k \<Rightarrow> k = n
      | JFloat x \<Rightarrow> x = real_of_int n
      | JBool b \<Rightarrow> (if b then 1 else 0) = n
      | _ \<Rightarrow> False)"

text \<open>
  The predicates handed to \<open>_wait_for_locked\<close>:
  \<open>lambda m: m.get("type") in {..., "error"} and m.get("id") == req_id\<close>
  by \<open>start_recording\<close>, \<open>stop_recording\<close> and \<open>cancel_recording\<close>, and
  \<open>lambda m: m.get("type") in {"ready", "error"}\<close> by \<open>_ensure_running_locked\<close>.
\<close>

definition terminal_for :: "string \<Rightarrow> int \<Rightarrow> msg \<Rightarrow> exn + bool" where
  "terminal_for done req_id m =
     (case in_names (dget m ''type'') [done, ''error''] of
        Inl e \<Rightarrow> Inl e
      | Inr False \<Rightarrow> Inr False
      | Inr True \<Rightarrow> Inr (py_eq_int (dget m ''id'') req_id))"

definition start_predicate :: "int \<Rightarrow> msg \<Rightarrow> exn + bool" where
  "start_predicate req_id = terminal_for ''started'' req_id"

definition stop_predicate :: "int \<Rightarrow> msg \<Rightarrow> exn + bool" where
  "stop_predicate req_id = terminal_for ''stopped'' req_id"

definition cancel_predicate :: "int \<Rightarrow> msg \<Rightarrow> exn + bool" where
  "cancel_predicate req_id = terminal_for ''canceled'' req_id"

definition ready_predicate :: "msg \<Rightarrow> exn + bool" where
  "ready_predicate m = in_names (dget m ''type'') [''ready'', ''error'']"

subsection \<open>The reader task\<close>

text \<open>\<open>float(v)\<close> on a decoded value.\<close>

definition py_float :: "platform \<Rightarrow> json \<Rightarrow> exn + real" where
  "py_float p v =
     (case v of
        JBool b \<Rightarrow> Inr (if b then 1 else 0)
      | JInt n \<Rightarrow> Inr (real_of_int n)
      | JFloat x \<Rightarrow> Inr x
      | JStr s \<Rightarrow> (case float_of_str p s of
                    None \<Rightarrow> Inl (ValueError ''could not convert string to float'')
                  | Some x \<Rightarrow> Inr x)
      | _ \<Rightarrow> Inl (TypeError ''float() argument must be a string or a real number''))"

text \<open>
  What the reader owns: the inbound queue and, in place of the registered waveform
  callback, the list of argument pairs it has been called with. \<open>has_callback\<close> says
  whether a callback is registered. An exception raised by the callback itself is
  swallowed by the reader and changes nothing here.
\<close>

record reader =
  queue :: "msg list"
  calls :: "(json \<times> real) list"

definition put :: "msg \<Rightarrow> reader \<Rightarrow> reader" where
  "put m rd = rd\<lparr> queue := queue rd @ [m] \<rparr>"

text \<open>
  One iteration of \<open>for line in proc.stdout\<close>. Only \<open>json.JSONDecodeError\<close> is caught:
  any other exception of the decoder, and the AttributeError of \<open>msg.get\<close> on a decoded
  value that is not an object, leave the reader.
\<close>

definition read_line :: "platform \<Rightarrow> bool \<Rightarrow> reader \<Rightarrow> string \<Rightarrow> exn + reader" where
  "read_line p has_callback rd line0 =
     (let line = str_strip p line0 in
      if line = [] then Inr rd
      else
        (case json_loads p line of
           Inl (JSONDecodeError t) \<Rightarrow> Inr (put [(''type'', JStr ''stdout''), (''line'', JStr line)] rd)
         | Inl e \<Rightarrow> Inl e
         | Inr (JObj m) \<Rightarrow>
             if dget m ''type'' = JStr ''waveform'' then
               (if has_callback then
                  (let vals = (case map_of m ''values'' of None \<Rightarrow> JArr [] | Some v \<Rightarrow> v);
                       raw = (case map_of m ''raw_peak'' of None \<Rightarrow> JFloat 0 | Some v \<Rightarrow> v)
                   in case py_float p (py_or raw (JFloat 0)) of
                        Inl e \<Rightarrow> Inr rd
                      | Inr pk \<Rightarrow> Inr (rd\<lparr> calls := calls rd @ [(vals, pk)] \<rparr>))
                else Inr rd)
             else Inr (put m rd)
         | Inr _ \<Rightarrow> Inl (AttributeError ''object has no attribute get'')))"

text \<open>
  \<open>_read_stdout\<close> over the lines the worker writes before its output stream closes:
  the \<open>eof\<close> sentinel is put when the loop ends, and not when an exception ends the
  reader.
\<close>

fun read_stdout :: "platform \<Rightarrow> bool \<Rightarrow> reader \<Rightarrow> string list \<Rightarrow> exn + reader" where
  "read_stdout p has_callback rd [] = Inr (put [(''type'', JStr ''eof'')] rd)"
| "read_stdout p has_callback rd (line # rest) =
     (case read_line p has_callback rd line of
        Inl e \<Rightarrow> Inl e
      | Inr rd' \<Rightarrow> read_stdout p has_callback rd' rest)"

subsection \<open>Waiting for a response\<close>

text \<open>
  \<open>_wait_for_locked\<close> reads the clock and the queue once per iteration. The model is
  driven by what these two return: a list with, for each iteration, the reading of
  \<open>time.time()\<close> and the outcome of \<open>self._messages.get(timeout=remaining)\<close>, \<open>None\<close>
  for \<open>queue.Empty\<close>. When the list ends the call is still blocked in \<open>get\<close>.
\<close>

datatype waited =
    Returned "msg option"   \<comment> \<open>the dict returned, or Python's \<open>None\<close>\<close>
  | Raised exn              \<comment> \<open>the predicate raised\<close>
  | Blocked                 \<comment> \<open>still waiting\<close>

fun wait_loop :: "(msg \<Rightarrow> exn + bool) \<Rightarrow> real option \<Rightarrow> (real \<times> msg option) list \<Rightarrow> waited" where
  "wait_loop predicate deadline [] = Blocked"
| "wait_loop predicate deadline ((now, got) # rest) =
     (if (case deadline of None \<Rightarrow> False | Some dl \<Rightarrow> dl - now \<le> 0) then Returned None
      else
        (case got of
           None \<Rightarrow> Returned None
         | Some message \<Rightarrow>
             if dget message ''type'' = JStr ''eof''
             then Returned (Some [(''type'', JStr ''error''), (''error'', JStr ''Audio worker exited unexpectedly'')])
             else
               (case predicate message of
                  Inl e \<Rightarrow> Raised e
                | Inr True \<Rightarrow> Returned (Some message)
                | Inr False \<Rightarrow> wait_loop predicate deadline rest)))"

text \<open>\<open>t0\<close> is the clock reading that fixes the deadline.\<close>

definition wait_for_locked :: "(msg \<Rightarrow> exn + bool) \<Rightarrow> real \<Rightarrow> real \<Rightarrow> (real \<times> msg option) list \<Rightarrow> waited" where
  "wait_for_locked predicate timeout_s t0 polls =
     wait_loop predicate (if timeout_s > 0 then Some (t0 + timeout_s) else None) polls"

section \<open>Runs of the recorder\<close>

text \<open>
  The recorder states that the protocol loop and the driver can produce: starting from
  a fresh recorder, any sequence of \<open>start\<close>, \<open>stop\<close>, \<open>cancel\<close> (which is also
  \<open>shutdown\<close>) and callback invocations, with any arguments, at any time and on any
  platform.
\<close>

inductive reachable :: "recorder \<Rightarrow> bool" where
  init: "reachable Recorder_init"
| start: "reachable r \<Longrightarrow> reachable (snd (start p now r device_name rate chans))"
| stop: "reachable r \<Longrightarrow> reachable (fst (snd (stop p r fs wav_path)))"
| cancel: "reachable r \<Longrightarrow> reachable (fst (cancel p r))"
| callback: "reachable r \<Longrightarrow> reachable (fst (callback r indata status now))"

text \<open>
  The driver delivering a sequence of blocks: one callback invocation per block, each
  with its status text and clock reading.
\<close>

fun feed :: "recorder \<Rightarrow> (chunk \<times> string option \<times> real) list \<Rightarrow> recorder" where
  "feed r [] = r"
| "feed r ((indata, status, now) # rest) = feed (fst (callback r indata status now)) rest"

section \<open>The partition of the samples as the specification words it\<close>

text \<open>
  The specification describes 24 contiguous segments of length
  \<open>max (total_samples / 24) 1\<close> whose last one takes the trailing remainder, a segment
  without samples yielding 0. These two definitions follow that wording; they are
  compared with \<open>raw_values_of\<close> below.
\<close>

definition spec_segments :: "real list \<Rightarrow> real list list" where
  "spec_segments audio =
     (let segment_length = max (length audio div 24) 1
      in map (\<lambda>i. if i < 23 then take segment_length (drop (i * segment_length) audio)
                   else drop (23 * segment_length) audio) [0..<24])"

definition spec_raw_values :: "real list \<Rightarrow> real list" where
  "spec_raw_values audio = map (\<lambda>seg. if seg = [] then 0 else rms seg) (spec_segments audio)"

section \<open>Concrete inputs\<close>

text \<open>
  What \<open>str.strip()\<close> does to a line of ASCII characters: the whitespace among them is
  removed from both ends.
\<close>

definition ascii_isspace :: "char \<Rightarrow> bool" where
  "ascii_isspace c = (c \<in> set [CHR 0x09, CHR 0x0A, CHR 0x0B, CHR 0x0C, CHR 0x0D,
                                CHR 0x1C, CHR 0x1D, CHR 0x1E, CHR 0x1F, CHR 0x20])"

definition ascii_strip :: "string \<Rightarrow> string" where
  "ascii_strip s = rev (dropWhile ascii_isspace (rev (dropWhile ascii_isspace s)))"

text \<open>A conversion to 16 bits that truncates the exact product toward zero.\<close>

definition truncate_int16 :: "real \<Rightarrow> 16 word" where
  "truncate_int16 x = (let y = x * 32767 in word_of_int (if y < 0 then \<lceil>y\<rceil> else \<lfloor>y\<rfloor>))"

text \<open>
  A platform without devices on which the decoder rejects every line and no write and
  no driver call fails.
\<close>

definition silent_platform :: platform where
  "silent_platform =
     \<lparr> json_loads = (\<lambda>s. Inl (JSONDecodeError ''Expecting value'')), str_strip = ascii_strip,
       repr_of = (\<lambda>v. ''?''), int_of_str = (\<lambda>s. None), float_of_str = (\<lambda>s. None),
       format_exc = exn_str, write_error = (\<lambda>m. None), query_devices = [],
       open_stream = (\<lambda>d r c. None), abort_close = (\<lambda>s. None),
       astype_int16 = truncate_int16, wav_write = (\<lambda>path rate data. None) \<rparr>"

text \<open>The same platform with a file system that refuses every write.\<close>

definition readonly_platform :: platform where
  "readonly_platform = silent_platform\<lparr> wav_write := (\<lambda>path rate data. Some (OSError ''Read-only file system'')) \<rparr>"

text \<open>The same platform with an output stream that refuses every write.\<close>

definition mute_platform :: platform where
  "mute_platform = silent_platform\<lparr> write_error := (\<lambda>m. Some (UnicodeEncodeError ''surrogates not allowed'')) \<rparr>"

text \<open>The same platform with a decoder that gives up on every line at its recursion limit.\<close>

definition shallow_platform :: platform where
  "shallow_platform = silent_platform\<lparr> json_loads := (\<lambda>s. Inl (RecursionError ''maximum recursion depth exceeded'')) \<rparr>"

text \<open>A fresh recorder started on the default device.\<close>

definition started_recorder :: recorder where
  "started_recorder = snd (start silent_platform 0 Recorder_init JNull 16000 1)"

text \<open>The same recorder after one block of one frame, delivered before the first tick.\<close>

definition demo_recorder :: recorder where
  "demo_recorder = fst (callback started_recorder [(1 / 2, [])] None 0)"

text \<open>Two blocks of two mono frames each.\<close>

definition two_chunks :: "(chunk \<times> string option \<times> real) list" where
  "two_chunks = [([(1 / 2, []), (- 3 / 4, [])], None, 0), ([(1 / 4, []), (0, [])], None, 0)]"

text \<open>Twenty-five samples: twenty-four of silence, then one at full scale.\<close>

definition remainder_audio :: "real list" where
  "remainder_audio = replicate 24 0 @ [1]"

text \<open>The silent platform with an output-only device and a two-channel microphone.\<close>

definition studio_platform :: platform where
  "studio_platform =
     silent_platform\<lparr> query_devices := [\<lparr> dev_name = ''Speakers'', max_input_channels = 0 \<rparr>,
                                         \<lparr> dev_name = ''USB Mic'', max_input_channels = 2 \<rparr>] \<rparr>"

text \<open>
  Lines of the protocol. \<open>quoted s\<close> is \<open>s\<close> between double quotes; \<open>start_line\<close> is
  the text of an object with the fields \<open>type\<close> (start) and \<open>id\<close> (7) and decodes to
  \<open>start_request\<close>, and likewise for the others.
\<close>

definition quoted :: "string \<Rightarrow> string" where
  "quoted s = [CHR 0x22] @ s @ [CHR 0x22]"

definition start_line :: string where
  "start_line = ''{'' @ quoted ''type'' @ '': '' @ quoted ''start'' @ '', '' @ quoted ''id'' @ '': 7}''"

definition start_request :: "(string \<times> json) list" where
  "start_request = [(''type'', JStr ''start''), (''id'', JInt 7)]"

definition zero_rate_line :: string where
  "zero_rate_line = ''{'' @ quoted ''type'' @ '': '' @ quoted ''start'' @ '', '' @ quoted ''id'' @ '': 8, ''
      @ quoted ''sample_rate'' @ '': 0, '' @ quoted ''channels'' @ '': null}''"

definition zero_rate_request :: "(string \<times> json) list" where
  "zero_rate_request = [(''type'', JStr ''start''), (''id'', JInt 8), (''sample_rate'', JInt 0), (''channels'', JNull)]"

definition ping_line :: string where
  "ping_line = ''{'' @ quoted ''type'' @ '': '' @ quoted ''ping'' @ '', '' @ quoted ''id'' @ '': 3}''"

definition ping_request :: "(string \<times> json) list" where
  "ping_request = [(''type'', JStr ''ping''), (''id'', JInt 3)]"

text \<open>
  The silent platform with a decoder that knows these lines and the number 42 and
  rejects every other line; \<open>repr\<close> of a string puts it between single quotes.
\<close>

definition protocol_platform :: platform where
  "protocol_platform =
     silent_platform\<lparr>
       json_loads := (\<lambda>s. case map_of [(start_line, JObj start_request), (zero_rate_line, JObj zero_rate_request),
                                         (ping_line, JObj ping_request), (''42'', JInt 42)] s of
                             None \<Rightarrow> Inl (JSONDecodeError ''Expecting value'')
                           | Some v \<Rightarrow> Inr v),
       repr_of := (\<lambda>v. case v of JStr s \<Rightarrow> [CHR 39] @ s @ [CHR 39] | _ \<Rightarrow> ''?'') \<rparr>"

text \<open>The worker before its first line, and a worker whose recorder is recording.\<close>

definition idle_worker :: worker where
  "idle_worker = \<lparr> rec = Recorder_init, stdout = [], stderr = [], disk = Map.empty \<rparr>"


text \<open>Messages on the client's queue, and a reader that has read nothing.\<close>

definition noise_msg :: msg where
  "noise_msg = [(''type'', JStr ''stdout''), (''line'', JStr ''noise'')]"

definition stopped_msg :: msg where
  "stopped_msg = [(''type'', JStr ''stopped''), (''id'', JInt 5), (''frames'', JInt 0), (''peak'', JFloat 0)]"

definition eof_msg :: msg where
  "eof_msg = [(''type'', JStr ''eof'')]"

definition fresh_reader :: reader where
  "fresh_reader = \<lparr> queue = [], calls = [] \<rparr>"

section \<open>Lemmas about the waveform pipeline\<close>

lemma fold_snoc_map: "fold (\<lambda>i acc. acc @ [f i]) xs acc0 = acc0 @ map f xs"
  by (induction xs arbitrary: acc0) auto

lemma samples_per_bar_max:
  "(if n div 24 < 1 then 1 else n div 24) = max (n div 24) (1::nat)"
  by (cases "n div 24 = 0") (auto simp: max_def)

text \<open>The loop that appends one value per bar builds the list of the 24 bar values.\<close>

lemma raw_values_map:
  "raw_values_of audio = map (bar_value audio (max (length audio div 24) 1)) [0..<24]"
  unfolding raw_values_of_def Let_def WAVEFORM_BARS_def fold_snoc_map samples_per_bar_max
  by simp

lemma sum_squares_nonneg: "0 \<le> sum_list (map (\<lambda>x. x ^ 2) (xs :: real list))"
  by (induction xs) auto

lemma rms_nonneg: "0 \<le> rms xs"
  by (simp add: rms_def np_mean_def sum_squares_nonneg)

lemma bar_value_nonneg: "0 \<le> bar_value audio k i"
  by (simp add: bar_value_def Let_def rms_nonneg)

lemma raw_values_nonneg: "v \<in> set (raw_values_of audio) \<Longrightarrow> 0 \<le> v"
  by (auto simp: raw_values_map bar_value_nonneg)

lemma raw_values_length: "length (raw_values_of audio) = 24"
  by (simp add: raw_values_map)

text \<open>
  A bar that starts inside the samples also ends inside them, so the clamp
  \<open>if end > len(audio): end = len(audio)\<close> never changes \<open>end\<close>.
\<close>

lemma segment_fits:
  assumes "i < 24" "i * max (n div 24) 1 < n"
  shows "i * max (n div 24) 1 + max (n div 24) 1 \<le> (n::nat)"
proof (cases "n div 24 = 0")
  case True
  then show ?thesis using assms by (simp add: max_def)
next
  case False
  then have k: "max (n div 24) 1 = n div 24" by (simp add: max_def)
  have "i * (n div 24) + n div 24 = Suc i * (n div 24)" by simp
  also have "\<dots> \<le> 24 * (n div 24)" using assms(1) by (intro mult_le_mono1) simp
  also have "\<dots> \<le> n" by simp
  finally have "i * (n div 24) + n div 24 \<le> n" .
  then show ?thesis unfolding k .
qed

lemma bar_value_segment:
  assumes "i < 24" and "k = max (length audio div 24) 1"
  shows "bar_value audio k i =
    (if i * k < length audio then rms (take k (drop (i * k) audio)) else 0)"
proof (cases "i * k < length audio")
  case True
  then have "i * k + k \<le> length audio"
    using segment_fits[OF assms(1), of "length audio"] unfolding assms(2) by blast
  then show ?thesis using True by (simp add: bar_value_def Let_def slice_def)
next
  case False
  then show ?thesis by (simp add: bar_value_def Let_def)
qed

lemma concat_segments:
  "concat (map (\<lambda>i. take k (drop (i * k) xs)) [0..<m]) = take (m * k) xs"
proof (induction m)
  case 0
  then show ?case by simp
next
  case (Suc m)
  have "take (m * k) xs @ take k (drop (m * k) xs) = take (m * k + k) xs"
    by (simp add: take_add)
  with Suc show ?case by (simp add: add.commute)
qed

subsection \<open>The smoothed peak level stays positive\<close>

lemma send_waveform_level:
  assumes pos: "0 < peak_level r"
  shows "0 < peak_level (fst (send_waveform r))"
proof -
  have "0 < peak_level r * (8 / 10) + max t (5 / 1000) * (2 / 10)" for t :: real
  proof -
    have "0 < peak_level r * (8 / 10)" using pos by simp
    moreover have "0 < max t (5 / 1000) * (2 / 10)" by (simp add: max_def)
    ultimately show ?thesis by linarith
  qed
  then show ?thesis using pos by (simp add: send_waveform_def Let_def)
qed

lemma callback_level:
  assumes pos: "0 < peak_level r"
  shows "0 < peak_level (fst (callback r indata status now))"
proof -
  let ?r1 = "r\<lparr> chunks := chunks r @ [indata], waveform_buffer := waveform_buffer r @ [indata] \<rparr>"
  have "0 < peak_level (fst (send_waveform (?r1\<lparr> last_waveform_time := now \<rparr>)))"
    by (rule send_waveform_level) (simp add: pos)
  then show ?thesis using pos
    by (simp add: callback_def Let_def split_beta)
qed

lemma start_level: "0 < peak_level r \<Longrightarrow> 0 < peak_level (snd (start p now r device_name rate chans))"
  by (simp add: start_def Let_def split: option.splits)

lemma stop_level: "0 < peak_level r \<Longrightarrow> 0 < peak_level (fst (snd (stop p r fs wav_path)))"
  by (simp add: stop_def Let_def split: sum.splits option.splits)

lemma cancel_level: "0 < peak_level r \<Longrightarrow> 0 < peak_level (fst (cancel p r))"
  by (simp add: cancel_def)

lemma reachable_level: "reachable r \<Longrightarrow> 0 < peak_level r"
proof (induction rule: reachable.induct)
  case init
  show ?case by (simp add: Recorder_init_def)
next
  case (start r p now device_name rate chans)
  then show ?case by (simp add: start_level)
next
  case (stop r p fs wav_path)
  then show ?case by (simp add: stop_level)
next
  case (cancel r p)
  then show ?case by (simp add: cancel_level)
next
  case (callback r indata status now)
  then show ?case by (simp add: callback_level)
qed

lemma normalized_bounds:
  assumes "0 \<le> v" "0 < level"
  shows "0 \<le> min 1 (v / level * (85 / 100)) \<and> min 1 (v / level * (85 / 100)) \<le> (1::real)"
proof -
  have "0 \<le> v / level" using assms by simp
  then have "0 \<le> v / level * (85 / 100)" by simp
  then show ?thesis by simp
qed

lemma send_waveform_events:
  assumes "0 < peak_level r" "send_waveform r = (r', evs)" "m \<in> set evs"
  shows "\<exists>vals raw_peak. m = waveform_msg vals raw_peak \<and> length vals = 24 \<and> (\<forall>v\<in>set vals. 0 \<le> v \<and> v \<le> 1)"
proof (cases "waveform_buffer r = []")
  case True
  with assms show ?thesis by (simp add: send_waveform_def)
next
  case False
  define raw where "raw = raw_values_of (map (\<lambda>fr. \<bar>fst fr\<bar>) (concat (waveform_buffer r)))"
  have lvl: "0 < peak_level (fst (send_waveform r))"
    using assms(1) by (rule send_waveform_level)
  define level where "level = peak_level (fst (send_waveform r))"
  have m: "m = waveform_msg (map (\<lambda>v. min 1 (v / level * (85 / 100))) raw) (max_or_zero raw)"
    using assms(2,3) False unfolding level_def raw_def
    by (auto simp: send_waveform_def Let_def)
  have "length (map (\<lambda>v. min 1 (v / level * (85 / 100))) raw) = 24"
    by (simp add: raw_def raw_values_length)
  moreover have "\<forall>x\<in>set (map (\<lambda>v. min 1 (v / level * (85 / 100))) raw). 0 \<le> x \<and> x \<le> 1"
  proof
    fix x assume "x \<in> set (map (\<lambda>v. min 1 (v / level * (85 / 100))) raw)"
    then obtain v where v: "v \<in> set raw" and x: "x = min 1 (v / level * (85 / 100))" by auto
    have "0 \<le> v" using v unfolding raw_def by (rule raw_values_nonneg)
    then show "0 \<le> x \<and> x \<le> 1" unfolding x using lvl unfolding level_def[symmetric]
      by (rule normalized_bounds)
  qed
  ultimately show ?thesis using m by blast
qed

section \<open>Lemmas about the recorder\<close>

lemma send_waveform_keeps:
  "recording (fst (send_waveform r)) = recording r \<and> chunks (fst (send_waveform r)) = chunks r \<and>
   sample_rate (fst (send_waveform r)) = sample_rate r \<and> stream (fst (send_waveform r)) = stream r"
  by (simp add: send_waveform_def Let_def)

text \<open>While recording, a callback appends its block to the session buffer and nothing else of the session changes.\<close>

lemma callback_recording:
  assumes "recording r"
  shows "recording (fst (callback r indata status now)) \<and>
         chunks (fst (callback r indata status now)) = chunks r @ [indata] \<and>
         sample_rate (fst (callback r indata status now)) = sample_rate r \<and>
         stream (fst (callback r indata status now)) = stream r"
proof (cases "now - last_waveform_time r \<ge> WAVEFORM_INTERVAL_S")
  case True
  let ?r1 = "r\<lparr> chunks := chunks r @ [indata], waveform_buffer := waveform_buffer r @ [indata],
      last_waveform_time := now \<rparr>"
  have "fst (callback r indata status now) = fst (send_waveform ?r1)"
    using assms True by (simp add: callback_def Let_def split_beta)
  then show ?thesis using assms by (simp add: send_waveform_keeps)
next
  case False
  then show ?thesis using assms by (simp add: callback_def Let_def)
qed

lemma feed_recording:
  "recording r \<Longrightarrow>
     recording (feed r cbs) \<and> chunks (feed r cbs) = chunks r @ map fst cbs \<and>
     sample_rate (feed r cbs) = sample_rate r \<and> stream (feed r cbs) = stream r"
proof (induction cbs arbitrary: r)
  case Nil
  then show ?case by simp
next
  case (Cons cb cbs)
  obtain indata status now where cb: "cb = (indata, status, now)" by (cases cb) auto
  from callback_recording[OF Cons.prems, of indata status now]
  have step: "recording (fst (callback r indata status now))"
     "chunks (fst (callback r indata status now)) = chunks r @ [indata]"
     "sample_rate (fst (callback r indata status now)) = sample_rate r"
     "stream (fst (callback r indata status now)) = stream r" by simp_all
  from Cons.IH[OF step(1)] show ?case by (simp add: cb step)
qed

lemma start_ok:
  assumes "start p now r device_name rate chans = (None, r1)"
  shows "recording r1 \<and> chunks r1 = [] \<and> sample_rate r1 = Some rate"
  using assms by (auto simp: start_def Let_def split: if_splits option.splits)

lemma np_max_Max: "xs \<noteq> [] \<Longrightarrow> np_max xs = Inr (Max (set xs))"
proof (cases xs)
  case Nil
  assume "xs \<noteq> []"
  with Nil show ?thesis by simp
next
  case (Cons y ys)
  have "fold max ys y = Max (set (y # ys))" by (rule Max.set_eq_fold[symmetric])
  then show ?thesis by (simp add: np_max_def Cons)
qed

lemma samples_of_empty: "samples_of audio = [] \<longleftrightarrow> audio = []"
  by (cases audio) (simp_all add: samples_of_def)

lemma stop_with_audio:
  assumes "recording r" and "concat (chunks r) \<noteq> []"
      and "wav_write p wav_path (case sample_rate r of None \<Rightarrow> 16000 | Some n \<Rightarrow> if n = 0 then 16000 else n)
             (map (\<lambda>fr. map (astype_int16 p) (fst fr # snd fr)) (concat (chunks r))) = None"
  shows "stop p r fs wav_path =
     (Inr (length (concat (chunks r)), Max (set (map abs (samples_of (concat (chunks r)))))),
      r\<lparr> recording := False, stream := None, chunks := [] \<rparr>,
      fs(wav_path \<mapsto> \<lparr> wav_rate = (case sample_rate r of None \<Rightarrow> 16000 | Some n \<Rightarrow> if n = 0 then 16000 else n),
                         wav_data = map (\<lambda>fr. map (astype_int16 p) (fst fr # snd fr)) (concat (chunks r)) \<rparr>),
      release_stream p (stream r))"
proof -
  have ne: "chunks r \<noteq> []" using assms(2) by auto
  have "map abs (samples_of (concat (chunks r))) \<noteq> []"
    using assms(2) by (simp add: samples_of_empty)
  then have "np_max (map abs (samples_of (concat (chunks r)))) =
      Inr (Max (set (map abs (samples_of (concat (chunks r))))))"
    by (rule np_max_Max)
  then show ?thesis using assms(1,3) ne by (simp add: stop_def Let_def)
qed

text \<open>Blocks without a single frame: \<open>np.max\<close> raises and nothing is written.\<close>

lemma stop_without_frames:
  assumes "recording r" and "chunks r \<noteq> []" and "concat (chunks r) = []"
  shows "fst (stop p r fs wav_path) =
           Inl (ValueError ''zero-size array to reduction operation maximum which has no identity'')
       \<and> fst (snd (snd (stop p r fs wav_path))) = fs"
proof -
  have e: "np_max (map abs (samples_of (concat (chunks r)))) =
      Inl (ValueError ''zero-size array to reduction operation maximum which has no identity'')"
    unfolding assms(3) by (simp add: samples_of_def np_max_def)
  show ?thesis using assms(1,2) by (simp add: stop_def Let_def e)
qed

text \<open>A write that raises: \<open>stop\<close> raises the same exception and nothing is written.\<close>

lemma stop_write_fails:
  assumes "recording r" and "concat (chunks r) \<noteq> []"
      and "wav_write p wav_path (case sample_rate r of None \<Rightarrow> 16000 | Some n \<Rightarrow> if n = 0 then 16000 else n)
             (map (\<lambda>fr. map (astype_int16 p) (fst fr # snd fr)) (concat (chunks r))) = Some e"
  shows "fst (stop p r fs wav_path) = Inl e \<and> fst (snd (snd (stop p r fs wav_path))) = fs"
proof -
  have ne: "chunks r \<noteq> []" using assms(2) by auto
  have "map abs (samples_of (concat (chunks r))) \<noteq> []"
    using assms(2) by (simp add: samples_of_empty)
  then have "np_max (map abs (samples_of (concat (chunks r)))) =
      Inr (Max (set (map abs (samples_of (concat (chunks r))))))"
    by (rule np_max_Max)
  then show ?thesis using assms(1,3) ne by (simp add: stop_def Let_def)
qed

lemma start_silent:
  "start silent_platform 0 Recorder_init JNull 16000 1 = (None, started_recorder)"
  by (simp add: started_recorder_def start_def silent_platform_def Recorder_init_def Let_def)

lemma resolve_from_None:
  "resolve_from i devs name = None \<longleftrightarrow>
     (\<forall>dev\<in>set devs. \<not> (max_input_channels dev > 0 \<and> JStr (dev_name dev) = name))"
  by (induction devs arbitrary: i) auto

section \<open>Claims about the waveform pipeline\<close>

text \<open>
  C1. Whatever the recorder has been through and whatever blocks are pending, an event
  written by \<open>_send_waveform\<close> is a \<open>waveform\<close> object whose list has exactly 24 values,
  each between 0 and 1 inclusive; with a pending block exactly one event is written.
  Samples and levels are real numbers here.
\<close>

theorem waveform_values_bounded:
  assumes "reachable r" and "send_waveform r = (r', evs)"
  shows "(waveform_buffer r \<noteq> [] \<longrightarrow> length evs = 1) \<and>
         (\<forall>m\<in>set evs. \<exists>vals raw_peak. m = waveform_msg vals raw_peak \<and> length vals = 24 \<and>
                          (\<forall>v\<in>set vals. 0 \<le> v \<and> v \<le> 1))"
proof
  show "waveform_buffer r \<noteq> [] \<longrightarrow> length evs = 1"
    using assms(2) by (auto simp: send_waveform_def Let_def)
  show "\<forall>m\<in>set evs. \<exists>vals raw_peak. m = waveform_msg vals raw_peak \<and> length vals = 24 \<and>
                          (\<forall>v\<in>set vals. 0 \<le> v \<and> v \<le> 1)"
    using send_waveform_events[OF reachable_level[OF assms(1)] assms(2)] by blast
qed

lemma demo_recorder_buffer: "waveform_buffer demo_recorder = [[(1 / 2, [])]]"
  by (simp add: demo_recorder_def started_recorder_def start_def callback_def Recorder_init_def
      silent_platform_def WAVEFORM_INTERVAL_S_def Let_def)

text \<open>
  C1 at a recorder that was started and has received one block: it is reachable, its
  pending buffer is not empty, and the one event it writes has 24 values in range.
\<close>

theorem waveform_values_bounded_witness:
  "reachable demo_recorder \<and> waveform_buffer demo_recorder \<noteq> [] \<and>
   (\<exists>vals raw_peak. snd (send_waveform demo_recorder) = [waveform_msg vals raw_peak] \<and>
      length vals = 24 \<and> list_all (\<lambda>v. 0 \<le> v \<and> v \<le> 1) vals)"
proof -
  have r: "reachable demo_recorder"
    unfolding demo_recorder_def started_recorder_def
    by (intro reachable.callback reachable.start reachable.init)
  have b: "waveform_buffer demo_recorder \<noteq> []" by (simp add: demo_recorder_buffer)
  have s: "send_waveform demo_recorder = (fst (send_waveform demo_recorder), snd (send_waveform demo_recorder))"
    by simp
  note w = waveform_values_bounded[OF r s]
  from w b have "length (snd (send_waveform demo_recorder)) = 1" by blast
  then obtain m where m: "snd (send_waveform demo_recorder) = [m]"
    by (cases "snd (send_waveform demo_recorder)") auto
  from w m obtain vals raw_peak where
    "m = waveform_msg vals raw_peak" "length vals = 24" "\<forall>v\<in>set vals. 0 \<le> v \<and> v \<le> 1"
    by auto
  then have "snd (send_waveform demo_recorder) = [waveform_msg vals raw_peak] \<and>
      length vals = 24 \<and> list_all (\<lambda>v. 0 \<le> v \<and> v \<le> 1) vals"
    using m by (simp add: list_all_iff)
  then show ?thesis using r b by blast
qed

lemma rms_single_zero: "rms [0] = 0"
  by (simp add: rms_def np_mean_def)

lemma code_last_bar: "raw_values_of remainder_audio ! 23 = 0"
proof -
  have "raw_values_of remainder_audio ! 23 = bar_value remainder_audio 1 23"
    by (simp add: raw_values_map remainder_audio_def)
  also have "\<dots> = rms (slice remainder_audio 23 24)"
    by (simp add: bar_value_def Let_def remainder_audio_def)
  also have "slice remainder_audio 23 24 = [0]"
    by (simp add: slice_def remainder_audio_def)
  finally show ?thesis by (simp add: rms_single_zero)
qed

lemma spec_last_bar: "spec_raw_values remainder_audio ! 23 = sqrt (1 / 2)"
proof -
  have d: "drop 23 remainder_audio = [0, 1]"
    by (simp add: remainder_audio_def)
  have l: "max (length remainder_audio div 24) 1 = 1"
    by (simp add: remainder_audio_def)
  have "spec_segments remainder_audio ! 23 = drop 23 remainder_audio"
    unfolding spec_segments_def Let_def l by simp
  moreover have "length (spec_segments remainder_audio) = 24"
    by (simp add: spec_segments_def Let_def)
  ultimately have "spec_raw_values remainder_audio ! 23 = rms [0, 1]"
    by (simp add: spec_raw_values_def d)
  then show ?thesis by (simp add: rms_def np_mean_def)
qed

text \<open>
  C2 as stated fails. With 25 samples the segment length is 1 and the claim puts the
  trailing remainder, sample 24, into the last segment, whose RMS would then be
  \<open>sqrt (1 / 2)\<close>. The code takes bar 23 from sample 23 alone and gives 0: the values
  computed by the code are not the ones of the partition the claim describes.
\<close>

theorem remainder_not_folded_counterexample:
  "raw_values_of remainder_audio \<noteq> spec_raw_values remainder_audio"
proof
  assume "raw_values_of remainder_audio = spec_raw_values remainder_audio"
  then have "raw_values_of remainder_audio ! 23 = spec_raw_values remainder_audio ! 23" by simp
  then show False by (simp add: code_last_bar spec_last_bar)
qed

text \<open>
  C2 as amended. With \<open>n\<close> pending samples and \<open>k = max (n div 24) 1\<close>, the pipeline
  computes exactly 24 raw values. Bar \<open>i\<close> is the RMS of the \<open>k\<close> samples from index
  \<open>i * k\<close> on when \<open>i * k < n\<close>, and such a segment always has its full length \<open>k\<close>; it
  is 0 when the segment lies entirely beyond the sample count. The segments are
  contiguous and together make up the first \<open>24 * k\<close> samples: the trailing remainder
  belongs to no segment.
\<close>

theorem waveform_segments:
  fixes audio :: "real list"
  defines "n \<equiv> length audio"
  defines "k \<equiv> max (length audio div 24) 1"
  shows "length (raw_values_of audio) = 24
       \<and> raw_values_of audio = map (\<lambda>i. if i * k < n then rms (take k (drop (i * k) audio)) else 0) [0..<24]
       \<and> (\<forall>i<24. i * k < n \<longrightarrow> length (take k (drop (i * k) audio)) = k)
       \<and> concat (map (\<lambda>i. take k (drop (i * k) audio)) [0..<24]) = take (24 * k) audio"
proof (intro conjI)
  show "length (raw_values_of audio) = 24" by (rule raw_values_length)
  show "raw_values_of audio = map (\<lambda>i. if i * k < n then rms (take k (drop (i * k) audio)) else 0) [0..<24]"
  proof -
    have "bar_value audio k i = (if i * k < n then rms (take k (drop (i * k) audio)) else 0)"
      if "i \<in> set [0..<24]" for i
      unfolding n_def using that by (intro bar_value_segment) (simp_all add: k_def)
    then have "map (bar_value audio k) [0..<24] =
        map (\<lambda>i. if i * k < n then rms (take k (drop (i * k) audio)) else 0) [0..<24]"
      by (intro map_cong[OF refl]) blast
    then show ?thesis unfolding raw_values_map k_def .
  qed
  show "\<forall>i<24. i * k < n \<longrightarrow> length (take k (drop (i * k) audio)) = k"
  proof (intro allI impI)
    fix i assume "i < 24" "i * k < n"
    then have "i * k + k \<le> n" unfolding n_def k_def by (rule segment_fits)
    then show "length (take k (drop (i * k) audio)) = k" by (simp add: n_def)
  qed
  show "concat (map (\<lambda>i. take k (drop (i * k) audio)) [0..<24]) = take (24 * k) audio"
    by (rule concat_segments)
qed

text \<open>
  C2 as amended, at the 25 samples above: bar 23 starts inside the samples and its
  segment has length 1; the 24 segments make up the first 24 samples, not all 25.
\<close>

theorem waveform_segments_witness:
  "(23::nat) < 24 \<and> 23 * max (length remainder_audio div 24) 1 < length remainder_audio \<and>
   length (take (max (length remainder_audio div 24) 1)
             (drop (23 * max (length remainder_audio div 24) 1) remainder_audio)) = max (length remainder_audio div 24) 1 \<and>
   length (raw_values_of remainder_audio) = 24 \<and>
   concat (map (\<lambda>i. take (max (length remainder_audio div 24) 1)
                       (drop (i * max (length remainder_audio div 24) 1) remainder_audio)) [0..<24])
     = replicate 24 0"
proof -
  let ?k = "max (length remainder_audio div 24) 1"
  note ws = waveform_segments[of remainder_audio]
  have s: "23 * ?k < length remainder_audio"
    by (simp add: remainder_audio_def)
  have e: "(23::nat) < 24" by simp
  have a: "length (raw_values_of remainder_audio) = 24"
    by (rule ws[THEN conjunct1])
  have b: "length (take ?k (drop (23 * ?k) remainder_audio)) = ?k"
    by (rule ws[THEN conjunct2, THEN conjunct2, THEN conjunct1, rule_format, OF e s])
  have c: "concat (map (\<lambda>i. take ?k (drop (i * ?k) remainder_audio)) [0..<24]) = take (24 * ?k) remainder_audio"
    by (rule ws[THEN conjunct2, THEN conjunct2, THEN conjunct2])
  have t: "take (24 * ?k) remainder_audio = replicate 24 0"
    by (simp add: remainder_audio_def)
  have d: "concat (map (\<lambda>i. take ?k (drop (i * ?k) remainder_audio)) [0..<24]) = replicate 24 0"
    using c t by (rule trans)
  from e s b a d show ?thesis by (intro conjI)
qed

section \<open>Claims about the recorder\<close>

lemma recording_started: "recording started_recorder"
  using start_ok[OF start_silent] by simp

text \<open>
  C3 as stated fails in two ways. A non-empty sequence of captured blocks may hold no
  frame at all: after one block of zero frames \<open>stop\<close> does not return a pair, it
  raises the ValueError of \<open>np.max\<close> on an empty array, and writes nothing. And with
  four frames captured, \<open>stop\<close> raises what \<open>wavfile.write\<close> raises when the destination
  cannot be written, and again no container exists.
\<close>

theorem stop_raises_counterexample:
  "start silent_platform 0 Recorder_init JNull 16000 1 = (None, started_recorder) \<and>
   map fst [([] :: chunk, None :: string option, 0 :: real)] \<noteq> [] \<and>
   fst (stop silent_platform (feed started_recorder [([], None, 0)]) Map.empty ''a.wav'') =
     Inl (ValueError ''zero-size array to reduction operation maximum which has no identity'') \<and>
   fst (snd (snd (stop silent_platform (feed started_recorder [([], None, 0)]) Map.empty ''a.wav''))) ''a.wav'' = None \<and>
   fst (stop readonly_platform (feed started_recorder two_chunks) Map.empty ''a.wav'') =
     Inl (OSError ''Read-only file system'') \<and>
   fst (snd (snd (stop readonly_platform (feed started_recorder two_chunks) Map.empty ''a.wav''))) ''a.wav'' = None"
proof -
  from feed_recording[OF recording_started, of "[([], None, 0)]"] start_ok[OF start_silent]
  have z: "recording (feed started_recorder [([], None, 0)])"
          "chunks (feed started_recorder [([], None, 0)]) = [[]]"
    by simp_all
  have z1: "chunks (feed started_recorder [([], None, 0)]) \<noteq> []"
       and z2: "concat (chunks (feed started_recorder [([], None, 0)])) = []"
    unfolding z(2) by simp_all
  note a = stop_without_frames[OF z(1) z1 z2, of silent_platform Map.empty "''a.wav''"]
  from feed_recording[OF recording_started, of two_chunks] start_ok[OF start_silent]
  have t: "recording (feed started_recorder two_chunks)"
          "chunks (feed started_recorder two_chunks) = map fst two_chunks"
    by simp_all
  have t1: "concat (chunks (feed started_recorder two_chunks)) \<noteq> []"
    unfolding t(2) by (simp add: two_chunks_def)
  have t2: "wav_write readonly_platform ''a.wav'' rate data = Some (OSError ''Read-only file system'')" for rate data
    by (simp add: readonly_platform_def)
  note b = stop_write_fails[OF t(1) t1 t2, of Map.empty]
  show ?thesis using a b start_silent by simp
qed

text \<open>
  C3 as amended. After a successful \<open>start\<close>, let the driver deliver any sequence of
  blocks that holds at least one frame, and let \<open>wavfile.write\<close> not raise. Then \<open>stop\<close>
  returns the total number of frames of all blocks as frame count and the largest
  absolute sample value of all blocks as peak, the container written under the
  destination path holds that many frames, and the recorder is idle. (Two blocks of K
  frames give 2K.)
\<close>

theorem stop_frames_and_peak:
  assumes "start p t0 r device_name rate chans = (None, r1)"
      and "concat (map fst cbs) \<noteq> []"
      and "wav_write p wav_path (if rate = 0 then 16000 else rate)
             (map (\<lambda>fr. map (astype_int16 p) (fst fr # snd fr)) (concat (map fst cbs))) = None"
      and "stop p (feed r1 cbs) fs wav_path = (res, r', fs', lg)"
  shows "res = Inr (sum_list (map (\<lambda>cb. length (fst cb)) cbs),
                    Max ((\<lambda>x. \<bar>x\<bar>) ` set (concat (map (\<lambda>cb. samples_of (fst cb)) cbs))))
       \<and> (\<exists>w. fs' wav_path = Some w \<and> length (wav_data w) = sum_list (map (\<lambda>cb. length (fst cb)) cbs))
       \<and> \<not> recording r'"
proof -
  from start_ok[OF assms(1)] have r1: "recording r1" "chunks r1 = []" "sample_rate r1 = Some rate"
    by simp_all
  from feed_recording[OF r1(1), of cbs]
  have f: "recording (feed r1 cbs)" "chunks (feed r1 cbs) = map fst cbs"
          "sample_rate (feed r1 cbs) = Some rate"
    by (simp_all add: r1)
  have len: "length (concat (map fst cbs)) = sum_list (map (\<lambda>cb. length (fst cb)) cbs)"
    by (simp add: length_concat comp_def)
  have smp: "samples_of (concat (map fst cbs)) = concat (map (\<lambda>cb. samples_of (fst cb)) cbs)"
    by (induction cbs) (simp_all add: samples_of_def)
  have ne: "concat (chunks (feed r1 cbs)) \<noteq> []" using assms(2) by (simp add: f)
  have wr: "wav_write p wav_path
             (case sample_rate (feed r1 cbs) of None \<Rightarrow> 16000 | Some n \<Rightarrow> if n = 0 then 16000 else n)
             (map (\<lambda>fr. map (astype_int16 p) (fst fr # snd fr)) (concat (chunks (feed r1 cbs)))) = None"
    using assms(3) by (simp add: f)
  from stop_with_audio[OF f(1) ne wr, of fs] assms(4)
  show ?thesis by (auto simp: f len smp)
qed

text \<open>
  C3 as amended, on two blocks of two frames each: four frames are returned and
  written, and the peak is 3/4, the magnitude of the sample \<open>-3/4\<close>.
\<close>

theorem stop_frames_and_peak_witness:
  "start silent_platform 0 Recorder_init JNull 16000 1 = (None, started_recorder) \<and>
   concat (map fst two_chunks) \<noteq> [] \<and>
   wav_write silent_platform ''a.wav'' 16000
     (map (\<lambda>fr. map (astype_int16 silent_platform) (fst fr # snd fr)) (concat (map fst two_chunks))) = None \<and>
   fst (stop silent_platform (feed started_recorder two_chunks) Map.empty ''a.wav'') = Inr (4, 3 / 4) \<and>
   (\<exists>w. fst (snd (snd (stop silent_platform (feed started_recorder two_chunks) Map.empty ''a.wav''))) ''a.wav'' = Some w
        \<and> length (wav_data w) = 4)"
proof -
  have ne: "concat (map fst two_chunks) \<noteq> []" by (simp add: two_chunks_def)
  have w0: "wav_write silent_platform ''a.wav'' 16000
     (map (\<lambda>fr. map (astype_int16 silent_platform) (fst fr # snd fr)) (concat (map fst two_chunks))) = None"
    by (simp add: silent_platform_def)
  have wr: "wav_write silent_platform ''a.wav'' (if (16000::int) = 0 then 16000 else 16000)
     (map (\<lambda>fr. map (astype_int16 silent_platform) (fst fr # snd fr)) (concat (map fst two_chunks))) = None"
    using w0 by simp
  obtain res r' fs' lg where
    st: "stop silent_platform (feed started_recorder two_chunks) Map.empty ''a.wav'' = (res, r', fs', lg)"
    by (cases "stop silent_platform (feed started_recorder two_chunks) Map.empty ''a.wav''") auto
  have fr: "sum_list (map (\<lambda>cb. length (fst cb)) two_chunks) = 4" by (simp add: two_chunks_def)
  have "(\<lambda>x. \<bar>x\<bar>) ` set (concat (map (\<lambda>cb. samples_of (fst cb)) two_chunks)) = {1 / 2, 3 / 4, 1 / 4, 0 :: real}"
    by (simp add: two_chunks_def samples_of_def)
  then have pk: "Max ((\<lambda>x. \<bar>x\<bar>) ` set (concat (map (\<lambda>cb. samples_of (fst cb)) two_chunks))) = 3 / 4"
    by simp
  from stop_frames_and_peak[OF start_silent ne wr st]
  have c: "res = Inr (4, 3 / 4) \<and> (\<exists>w. fs' ''a.wav'' = Some w \<and> length (wav_data w) = 4) \<and> \<not> recording r'"
    unfolding fr pk .
  have "fst (stop silent_platform (feed started_recorder two_chunks) Map.empty ''a.wav'') = Inr (4, 3 / 4)"
    using c by (simp add: st)
  moreover have "\<exists>w. fst (snd (snd (stop silent_platform (feed started_recorder two_chunks) Map.empty ''a.wav''))) ''a.wav'' = Some w
        \<and> length (wav_data w) = 4"
    using c by (simp add: st)
  ultimately show ?thesis using start_silent ne w0 by blast
qed

text \<open>
  C4. \<open>start\<close> on a recorder that is recording raises the RuntimeError
  "Already recording" and leaves every field of the recorder as it was.
\<close>

theorem start_while_recording:
  "recording r \<Longrightarrow> start p now r device_name rate chans = (Some (RuntimeError ''Already recording''), r)"
  by (simp add: start_def)

text \<open>C4 on a recorder that has just been started, asked to start again on another device.\<close>

theorem start_while_recording_witness:
  "recording started_recorder \<and>
   start studio_platform 1 started_recorder (JStr ''USB Mic'') 44100 2 =
     (Some (RuntimeError ''Already recording''), started_recorder)"
proof -
  have r: "recording started_recorder" using start_ok[OF start_silent] by simp
  show ?thesis using start_while_recording[OF r] r by simp
qed

text \<open>
  C5. \<open>stop\<close> on an idle recorder returns \<open>(0, 0.0)\<close>, logs nothing and leaves the
  recorder and the file system as they were. \<open>stop\<close> on a recorder that is recording
  but has captured no block returns \<open>(0, 0.0)\<close> and leaves the file system as it was;
  the recorder is idle afterwards.
\<close>

theorem stop_without_audio:
  "(\<not> recording r \<longrightarrow> stop p r fs wav_path = (Inr (0, 0), r, fs, [])) \<and>
   (recording r \<and> chunks r = [] \<longrightarrow>
      fst (stop p r fs wav_path) = Inr (0, 0) \<and> fst (snd (snd (stop p r fs wav_path))) = fs \<and>
      \<not> recording (fst (snd (stop p r fs wav_path))))"
  by (simp add: stop_def Let_def)

text \<open>C5 on a fresh recorder and on one that was started and received nothing.\<close>

theorem stop_without_audio_witness:
  "\<not> recording Recorder_init \<and>
   stop silent_platform Recorder_init Map.empty ''a.wav'' = (Inr (0, 0), Recorder_init, Map.empty, []) \<and>
   recording started_recorder \<and> chunks started_recorder = [] \<and>
   fst (stop silent_platform started_recorder Map.empty ''a.wav'') = Inr (0, 0) \<and>
   fst (snd (snd (stop silent_platform started_recorder Map.empty ''a.wav''))) = Map.empty"
proof -
  have i: "\<not> recording Recorder_init" by (simp add: Recorder_init_def)
  have r: "recording started_recorder" "chunks started_recorder = []"
    using start_ok[OF start_silent] by simp_all
  show ?thesis
    using stop_without_audio[of Recorder_init silent_platform Map.empty "''a.wav''"]
          stop_without_audio[of started_recorder silent_platform Map.empty "''a.wav''"] i r
    by simp
qed

text \<open>
  C6 as stated fails on the empty name. No input-capable device has the empty name,
  yet \<open>start\<close> on an idle recorder does not fail: \<open>if device_name:\<close> takes the empty
  string for "no device given", and the recorder goes on to record from the default
  device.
\<close>

theorem empty_device_name_counterexample:
  "\<not> list_ex (\<lambda>dev. max_input_channels dev > 0 \<and> dev_name dev = '''') (query_devices studio_platform) \<and>
   \<not> recording Recorder_init \<and>
   fst (start studio_platform 0 Recorder_init (JStr '''') 16000 1) = None \<and>
   recording (snd (start studio_platform 0 Recorder_init (JStr '''') 16000 1)) \<and>
   stream (snd (start studio_platform 0 Recorder_init (JStr '''') 16000 1)) = Some (InputStream None 16000 1)"
  by (simp add: start_def studio_platform_def silent_platform_def Recorder_init_def Let_def)

text \<open>
  C6 as amended. On an idle recorder, \<open>start\<close> with a non-empty device name that is
  the name of no input-capable device raises the RuntimeError
  "Audio device '<name>' not found" and leaves every field of the recorder as it was:
  the recorder stays idle, no buffer is reset, no stream is opened.
\<close>

theorem unknown_device_rejected:
  assumes "\<not> recording r" and "name \<noteq> []"
      and "\<forall>dev\<in>set (query_devices p). \<not> (max_input_channels dev > 0 \<and> dev_name dev = name)"
  shows "start p now r (JStr name) rate chans =
           (Some (RuntimeError (''Audio device '' @ [CHR 39] @ name @ [CHR 39] @ '' not found'')), r)"
proof -
  have "resolve_device p (JStr name) = None"
    unfolding resolve_device_def resolve_from_None using assms(3) by simp
  then show ?thesis using assms(1,2) by (simp add: start_def Let_def py_str_def)
qed

text \<open>
  C6 as amended, asking for the device "Speakers", which exists but has no input
  channel.
\<close>

theorem unknown_device_rejected_witness:
  "\<not> recording Recorder_init \<and> ''Speakers'' \<noteq> [] \<and>
   \<not> list_ex (\<lambda>dev. max_input_channels dev > 0 \<and> dev_name dev = ''Speakers'') (query_devices studio_platform) \<and>
   start studio_platform 0 Recorder_init (JStr ''Speakers'') 16000 1 =
     (Some (RuntimeError ''Audio device 'Speakers' not found''), Recorder_init)"
proof -
  have i: "\<not> recording Recorder_init" by (simp add: Recorder_init_def)
  have d: "\<forall>dev\<in>set (query_devices studio_platform). \<not> (max_input_channels dev > 0 \<and> dev_name dev = ''Speakers'')"
    by (simp add: studio_platform_def silent_platform_def)
  have n: "''Speakers'' \<noteq> []" by simp
  have l: "\<not> list_ex (\<lambda>dev. max_input_channels dev > 0 \<and> dev_name dev = ''Speakers'') (query_devices studio_platform)"
    using d by (simp add: list_ex_iff)
  show ?thesis using unknown_device_rejected[OF i n d, of 0 16000 1] i l by simp
qed

section \<open>Claims about the worker protocol loop\<close>

lemma strip_blank: "ascii_strip '' '' = []"
  by (simp add: ascii_strip_def ascii_isspace_def)




lemma protocol_writes: "write_error protocol_platform m = None"
  by (simp add: protocol_platform_def silent_platform_def)










text \<open>
  Outside C7: a line that decodes to something other than an object (a number, a list,
  a string, \<open>null\<close>) raises AttributeError at \<open>message.get\<close>, which no \<open>try\<close> encloses,
  and the loop ends there.
\<close>

lemma non_object_line_crashes:
  assumes "str_strip p line0 \<noteq> []" and "json_loads p (str_strip p line0) = Inr v" and "\<forall>d. v \<noteq> JObj d"
  shows "main_loop p w ((now, line0) # rest) = (Crash (AttributeError ''object has no attribute get''), w)"
  using assms by (cases v) (simp_all add: handle_line_def Let_def)

text \<open>
  Outside C7: when the write of the \<open>error\<close> line raises as well, that exception
  leaves the \<open>except\<close> clause and the loop ends there.
\<close>

lemma unwritable_error_line_crashes:
  assumes "str_strip p line0 \<noteq> []" and "json_loads p (str_strip p line0) = Inr (JObj d)"
      and "dispatch p now w d = (Inl e, w')" and "write_error p (error_response d e) = Some e'"
  shows "main_loop p w ((now, line0) # rest) = (Crash e', logs [format_exc p e] w')"
  using assms by (simp add: handle_line_def write_json_def Let_def)

lemma py_or_default:
  "map_of d k \<in> {None, Some JNull, Some (JInt 0), Some (JFloat 0)} \<Longrightarrow> py_or (dget d k) v = v"
  by (auto simp: py_or_def dget_def)

text \<open>
  C9. In a start request, a \<open>sample_rate\<close> that is missing, \<open>null\<close> or zero makes the
  loop call \<open>Recorder.start\<close> with the rate 16000, and a \<open>channels\<close> that is missing,
  \<open>null\<close> or zero makes it call \<open>Recorder.start\<close> with one channel; each holds
  whatever the other field converts to, and both together give 16000 and 1.
\<close>

theorem start_request_defaults:
  assumes "dget d ''type'' = JStr ''start''"
  shows "(map_of d ''sample_rate'' \<in> {None, Some JNull, Some (JInt 0), Some (JFloat 0)} \<and>
          py_int p (py_or (dget d ''channels'') (JInt 1)) = Inr chans \<longrightarrow>
            dispatch p now w d = start_and_reply p now w d 16000 chans)
       \<and> (map_of d ''channels'' \<in> {None, Some JNull, Some (JInt 0), Some (JFloat 0)} \<and>
          py_int p (py_or (dget d ''sample_rate'') (JInt 16000)) = Inr rate \<longrightarrow>
            dispatch p now w d = start_and_reply p now w d rate 1)
       \<and> (map_of d ''sample_rate'' \<in> {None, Some JNull, Some (JInt 0), Some (JFloat 0)} \<and>
          map_of d ''channels'' \<in> {None, Some JNull, Some (JInt 0), Some (JFloat 0)} \<longrightarrow>
            dispatch p now w d = start_and_reply p now w d 16000 1)"
proof -
  have i1: "py_int p (JInt 16000) = Inr 16000" and i2: "py_int p (JInt 1) = Inr 1"
    by (simp_all add: py_int_def)
  show ?thesis
    using assms by (auto simp: dispatch_def Let_def py_or_default i1 i2)
qed

text \<open>
  C9 on a start request with \<open>sample_rate\<close> 0 and \<open>channels\<close> \<open>null\<close>, sent to an idle
  worker: the recorder is started with 16000 and 1, the stream is opened with them, and
  the \<open>started\<close> line is written.
\<close>

theorem start_request_defaults_witness:
  "dget zero_rate_request ''type'' = JStr ''start'' \<and>
   map_of zero_rate_request ''sample_rate'' = Some (JInt 0) \<and>
   map_of zero_rate_request ''channels'' = Some JNull \<and>
   dispatch protocol_platform 0 idle_worker zero_rate_request =
     start_and_reply protocol_platform 0 idle_worker zero_rate_request 16000 1 \<and>
   fst (dispatch protocol_platform 0 idle_worker zero_rate_request) = Inr Continue \<and>
   sample_rate (rec (snd (dispatch protocol_platform 0 idle_worker zero_rate_request))) = Some 16000 \<and>
   channels (rec (snd (dispatch protocol_platform 0 idle_worker zero_rate_request))) = Some 1 \<and>
   stream (rec (snd (dispatch protocol_platform 0 idle_worker zero_rate_request))) = Some (InputStream None 16000 1) \<and>
   stdout (snd (dispatch protocol_platform 0 idle_worker zero_rate_request)) = [JObj [(''type'', JStr ''started''), (''id'', JInt 8)]]"
proof -
  have t: "dget zero_rate_request ''type'' = JStr ''start''"
    by (simp add: zero_rate_request_def dget_def)
  have a: "map_of zero_rate_request ''sample_rate'' = Some (JInt 0)"
    and b: "map_of zero_rate_request ''channels'' = Some JNull"
    by (simp_all add: zero_rate_request_def)
  from start_request_defaults[OF t, of protocol_platform 1 0 idle_worker 16000] a b
  have d: "dispatch protocol_platform 0 idle_worker zero_rate_request =
     start_and_reply protocol_platform 0 idle_worker zero_rate_request 16000 1" by simp
  have r: "start protocol_platform 0 Recorder_init JNull 16000 1 =
     (None, Recorder_init\<lparr> chunks := [], sample_rate := Some 16000, channels := Some 1, recording := True,
       last_waveform_time := 0, waveform_buffer := [], peak_level := 1 / 100, peak_history := [],
       stream := Some (InputStream None 16000 1) \<rparr>)"
    by (simp add: start_def Recorder_init_def protocol_platform_def silent_platform_def Let_def)
  have s: "start_and_reply protocol_platform 0 idle_worker zero_rate_request 16000 1 =
     (Inr Continue,
      idle_worker\<lparr> rec := snd (start protocol_platform 0 Recorder_init JNull 16000 1),
                    stdout := [JObj [(''type'', JStr ''started''), (''id'', JInt 8)]] \<rparr>)"
    by (simp add: start_and_reply_def reply_def write_json_def protocol_writes idle_worker_def
        zero_rate_request_def dget_def r)
  show ?thesis unfolding d s using t a b by (simp add: r idle_worker_def)
qed

section \<open>Claims about the IPC client\<close>

lemma wait_loop_skips:
  assumes "\<forall>(now, got) \<in> set before. \<not> (case deadline of None \<Rightarrow> False | Some dl \<Rightarrow> dl - now \<le> 0) \<and>
             (\<exists>m. got = Some m \<and> dget m ''type'' \<noteq> JStr ''eof'' \<and> predicate m = Inr False)"
  shows "wait_loop predicate deadline (before @ rest) = wait_loop predicate deadline rest"
  using assms
proof (induction before)
  case Nil
  then show ?case by simp
next
  case (Cons x before)
  obtain now got where x: "x = (now, got)" by (cases x) auto
  from Cons.prems x obtain m where
    m: "got = Some m" "dget m ''type'' \<noteq> JStr ''eof''" "predicate m = Inr False"
    and d: "\<not> (case deadline of None \<Rightarrow> False | Some dl \<Rightarrow> dl - now \<le> 0)"
    by auto
  have "wait_loop predicate deadline ((now, got) # before @ rest) = wait_loop predicate deadline (before @ rest)"
    using m d by simp
  also have "\<dots> = wait_loop predicate deadline rest"
    using Cons.prems by (intro Cons.IH) simp
  finally show ?case by (simp add: x)
qed

text \<open>
  C8 as stated fails on the text of the message. A wait that dequeues the \<open>eof\<close>
  sentinel returns at once with an error response, but the message it carries is
  "Audio worker exited unexpectedly", not "worker exited unexpectedly".
\<close>

theorem eof_message_text_counterexample:
  "wait_for_locked (stop_predicate 5) 10 0 [(2, Some eof_msg)] =
     Returned (Some [(''type'', JStr ''error''), (''error'', JStr ''Audio worker exited unexpectedly'')]) \<and>
   dget [(''type'', JStr ''error''), (''error'', JStr ''Audio worker exited unexpectedly'')] ''error''
     \<noteq> JStr ''worker exited unexpectedly''"
  by (simp add: wait_for_locked_def eof_msg_def dget_def)

text \<open>
  C8 as amended. Let a wait dequeue, each before the deadline, any number of messages
  that are not the sentinel and for which the predicate is false, and then, still
  before the deadline, the \<open>eof\<close> sentinel. The wait returns the synthesized response
  \<open>{"type": "error", "error": "Audio worker exited unexpectedly"}\<close>, whatever would
  have been dequeued afterwards: it does not go on waiting.
\<close>

theorem eof_ends_wait:
  assumes "\<forall>(now, got) \<in> set before. (timeout_s > 0 \<longrightarrow> now < t0 + timeout_s) \<and>
             (\<exists>m. got = Some m \<and> dget m ''type'' \<noteq> JStr ''eof'' \<and> predicate m = Inr False)"
      and "timeout_s > 0 \<longrightarrow> now_eof < t0 + timeout_s"
      and "dget eof ''type'' = JStr ''eof''"
  shows "wait_for_locked predicate timeout_s t0 (before @ (now_eof, Some eof) # rest) =
           Returned (Some [(''type'', JStr ''error''), (''error'', JStr ''Audio worker exited unexpectedly'')])"
proof -
  let ?deadline = "if timeout_s > 0 then Some (t0 + timeout_s) else None"
  have skip: "\<forall>(now, got) \<in> set before. \<not> (case ?deadline of None \<Rightarrow> False | Some dl \<Rightarrow> dl - now \<le> 0) \<and>
             (\<exists>m. got = Some m \<and> dget m ''type'' \<noteq> JStr ''eof'' \<and> predicate m = Inr False)"
    using assms(1) by auto
  have "wait_loop predicate ?deadline (before @ (now_eof, Some eof) # rest) =
        wait_loop predicate ?deadline ((now_eof, Some eof) # rest)"
    using skip by (rule wait_loop_skips)
  also have "\<dots> = Returned (Some [(''type'', JStr ''error''), (''error'', JStr ''Audio worker exited unexpectedly'')])"
    using assms(2,3) by (auto simp: not_le)
  finally show ?thesis by (simp add: wait_for_locked_def)
qed

text \<open>
  C8 as amended, on a wait for the response to stop request 5 with a timeout of 10
  seconds: a stray output line at time 1, the sentinel at time 2, and the matching
  \<open>stopped\<close> response only at time 3.
\<close>

theorem eof_ends_wait_witness:
  "(0 < (10::real) \<and> (1::real) < 0 + 10) \<and>
   dget noise_msg ''type'' \<noteq> JStr ''eof'' \<and> stop_predicate 5 noise_msg = Inr False \<and>
   (2::real) < 0 + 10 \<and> dget eof_msg ''type'' = JStr ''eof'' \<and>
   wait_for_locked (stop_predicate 5) 10 0 ([(1, Some noise_msg)] @ (2, Some eof_msg) # [(3, Some stopped_msg)]) =
     Returned (Some [(''type'', JStr ''error''), (''error'', JStr ''Audio worker exited unexpectedly'')])"
proof -
  have n: "dget noise_msg ''type'' \<noteq> JStr ''eof''" "stop_predicate 5 noise_msg = Inr False"
    by (simp_all add: noise_msg_def dget_def stop_predicate_def terminal_for_def in_names_def)
  have e: "dget eof_msg ''type'' = JStr ''eof''" by (simp add: eof_msg_def dget_def)
  have b: "\<forall>(now, got) \<in> set [(1::real, Some noise_msg)]. ((10::real) > 0 \<longrightarrow> now < 0 + 10) \<and>
             (\<exists>m. got = Some m \<and> dget m ''type'' \<noteq> JStr ''eof'' \<and> stop_predicate 5 m = Inr False)"
    using n by simp
  have t: "(10::real) > 0 \<longrightarrow> (2::real) < 0 + 10" by simp
  from eof_ends_wait[OF b t e, of "[(3, Some stopped_msg)]"] n e show ?thesis by simp
qed

lemma stdout_msg_never_terminal:
  "terminal_for done req_id [(''type'', JStr ''stdout''), (''line'', JStr line)] =
     (if done = ''stdout'' then Inr (py_eq_int JNull req_id) else Inr False)"
  by (simp add: terminal_for_def in_names_def dget_def py_eq_int_def)

lemma silent_strip: "str_strip silent_platform = ascii_strip"
  by (simp add: silent_platform_def)

lemma silent_loads: "json_loads silent_platform s = Inl (JSONDecodeError ''Expecting value'')"
  by (simp add: silent_platform_def)

text \<open>
  C10 as stated fails on a blank line. A line of one space is not JSON, and the reader
  puts nothing on the queue for it: \<open>if not line: continue\<close> discards it.
\<close>

theorem blank_line_dropped_counterexample:
  "json_loads silent_platform '' '' = Inl (JSONDecodeError ''Expecting value'') \<and>
   read_line silent_platform False fresh_reader '' '' = Inr fresh_reader \<and>
   queue fresh_reader = []"
  by (simp add: read_line_def silent_strip silent_loads strip_blank fresh_reader_def)

text \<open>
  C10 as amended. The reader discards a blank line of the worker's output. For every
  line that is not blank and that the decoder rejects with \<open>json.JSONDecodeError\<close> it
  puts
  \<open>{"type": "stdout", "line": <the line without its leading and trailing whitespace>}\<close>
  on the queue and nothing else changes. For every request id the predicates of
  \<open>start_recording\<close>, \<open>stop_recording\<close>, \<open>cancel_recording\<close> and of the readiness
  handshake are false on that message, and a wait with one of them that dequeues it
  before its deadline goes on to the next message.
\<close>

theorem non_json_line_queued:
  "(str_strip p line0 = [] \<longrightarrow> read_line p has_callback rd line0 = Inr rd)
 \<and> (\<forall>t. str_strip p line0 \<noteq> [] \<and> json_loads p (str_strip p line0) = Inl (JSONDecodeError t) \<longrightarrow>
      read_line p has_callback rd line0 =
        Inr (put [(''type'', JStr ''stdout''), (''line'', JStr (str_strip p line0))] rd))
 \<and> (\<forall>predicate \<in> {start_predicate req_id, stop_predicate req_id, cancel_predicate req_id, ready_predicate}.
        predicate [(''type'', JStr ''stdout''), (''line'', JStr (str_strip p line0))] = Inr False
      \<and> wait_loop predicate deadline ((now, Some [(''type'', JStr ''stdout''), (''line'', JStr (str_strip p line0))]) # rest)
          = (if (case deadline of None \<Rightarrow> False | Some dl \<Rightarrow> dl - now \<le> 0) then Returned None
             else wait_loop predicate deadline rest))"
proof (intro conjI impI allI)
  show "read_line p has_callback rd line0 = Inr rd" if "str_strip p line0 = []"
    using that by (simp add: read_line_def)
  show "read_line p has_callback rd line0 =
           Inr (put [(''type'', JStr ''stdout''), (''line'', JStr (str_strip p line0))] rd)"
    if "str_strip p line0 \<noteq> [] \<and> json_loads p (str_strip p line0) = Inl (JSONDecodeError t)" for t
    using that by (simp add: read_line_def Let_def)
  let ?m = "[(''type'', JStr ''stdout''), (''line'', JStr (str_strip p line0))]"
  have p: "predicate ?m = Inr False"
    if "predicate \<in> {start_predicate req_id, stop_predicate req_id, cancel_predicate req_id, ready_predicate}"
    for predicate
    using that
    by (auto simp: start_predicate_def stop_predicate_def cancel_predicate_def ready_predicate_def
        stdout_msg_never_terminal in_names_def dget_def)
  have t: "dget ?m ''type'' \<noteq> JStr ''eof''" by (simp add: dget_def)
  show "\<forall>predicate \<in> {start_predicate req_id, stop_predicate req_id, cancel_predicate req_id, ready_predicate}.
            predicate ?m = Inr False
          \<and> wait_loop predicate deadline ((now, Some ?m) # rest)
              = (if (case deadline of None \<Rightarrow> False | Some dl \<Rightarrow> dl - now \<le> 0) then Returned None
                 else wait_loop predicate deadline rest)"
  proof
    fix predicate
    assume "predicate \<in> {start_predicate req_id, stop_predicate req_id, cancel_predicate req_id, ready_predicate}"
    then have "predicate ?m = Inr False" by (rule p)
    then show "predicate ?m = Inr False
          \<and> wait_loop predicate deadline ((now, Some ?m) # rest)
              = (if (case deadline of None \<Rightarrow> False | Some dl \<Rightarrow> dl - now \<le> 0) then Returned None
                 else wait_loop predicate deadline rest)"
      using t by simp
  qed
qed

text \<open>
  C10 as amended, on the line \<open>hello\<close> between two spaces: the message carries
  \<open>hello\<close>, and a wait for the response to stop request 5 passes over it and returns
  the \<open>stopped\<close> response behind it.
\<close>

theorem non_json_line_queued_witness:
  "str_strip silent_platform '' hello '' \<noteq> [] \<and>
   json_loads silent_platform (str_strip silent_platform '' hello '') = Inl (JSONDecodeError ''Expecting value'') \<and>
   read_line silent_platform False fresh_reader '' hello '' =
     Inr (fresh_reader\<lparr> queue := [[(''type'', JStr ''stdout''), (''line'', JStr ''hello'')]] \<rparr>) \<and>
   stop_predicate 5 [(''type'', JStr ''stdout''), (''line'', JStr ''hello'')] = Inr False \<and>
   wait_loop (stop_predicate 5) (Some 10)
      [(1, Some [(''type'', JStr ''stdout''), (''line'', JStr ''hello'')]), (2, Some stopped_msg)]
     = Returned (Some stopped_msg)"
proof -
  have s: "str_strip silent_platform '' hello '' = ''hello''"
    by (simp add: silent_strip ascii_strip_def ascii_isspace_def)
  have n: "str_strip silent_platform '' hello '' \<noteq> []" by (simp add: s)
  have l: "json_loads silent_platform (str_strip silent_platform '' hello '') = Inl (JSONDecodeError ''Expecting value'')"
    by (rule silent_loads)
  note q = non_json_line_queued[of silent_platform "'' hello ''" False fresh_reader
      5 "Some 10" 1 "[(2, Some stopped_msg)]"]
  have a: "read_line silent_platform False fresh_reader '' hello '' =
     Inr (fresh_reader\<lparr> queue := [[(''type'', JStr ''stdout''), (''line'', JStr ''hello'')]] \<rparr>)"
    using q n l by (simp add: s put_def fresh_reader_def)
  have b: "stop_predicate 5 [(''type'', JStr ''stdout''), (''line'', JStr ''hello'')] = Inr False"
    using q by (simp add: s)
  have "wait_loop (stop_predicate 5) (Some 10)
      [(1, Some [(''type'', JStr ''stdout''), (''line'', JStr ''hello'')]), (2, Some stopped_msg)]
     = wait_loop (stop_predicate 5) (Some 10) [(2, Some stopped_msg)]"
    using q by (simp add: s)
  also have "\<dots> = Returned (Some stopped_msg)"
    by (simp add: stopped_msg_def dget_def stop_predicate_def terminal_for_def in_names_def py_eq_int_def)
  finally have c: "wait_loop (stop_predicate 5) (Some 10)
      [(1, Some [(''type'', JStr ''stdout''), (''line'', JStr ''hello'')]), (2, Some stopped_msg)]
     = Returned (Some stopped_msg)" .
  from n l a b c show ?thesis by (intro conjI)
qed

text \<open>
  Outside C10: an exception of the decoder other than \<open>json.JSONDecodeError\<close>, such as
  the RecursionError on deeply nested text, is not caught. It ends the reader: nothing
  is queued for the line, and no \<open>eof\<close> sentinel follows.
\<close>

lemma other_decoder_error_ends_reader:
  assumes "str_strip p line0 \<noteq> []" and "json_loads p (str_strip p line0) = Inl e"
      and "\<forall>t. e \<noteq> JSONDecodeError t"
  shows "read_stdout p has_callback rd (line0 # rest) = Inl e"
  using assms by (cases e) (simp_all add: read_line_def Let_def)


end
